theory Spec2Isabelle
  imports Main
begin

section \<open>The header mkusb.h as data\<close>

text \<open>
  The file \<^verbatim>\<open>src/resources/bin/light_meter_dll/mkusb.h\<close> holds no function bodies: it
  is a list of prototypes between an opening and a closing \<^verbatim>\<open>extern "C"\<close> brace, both
  under \<^verbatim>\<open>#ifdef __cplusplus\<close>. The model is the abstract syntax of that list, one
  entry for each line of the header, in the order of the header.
\<close>

subsection \<open>Types of parameters and results\<close>

text \<open>
  The type expressions of C as far as prototypes use them. \<open>T_array t n\<close> is the
  declarator \<^verbatim>\<open>t name[n]\<close>; the header never uses it. The header writes
  \<^verbatim>\<open>unsigned\<close> for \<^verbatim>\<open>unsigned int\<close> twice (parameter \<^verbatim>\<open>fir_cutfreq\<close>).
\<close>

datatype ctype =
    T_void
  | T_bool
  | T_char
  | T_ushort
  | T_int
  | T_uint
  | T_float
  | T_double
  | T_ptr ctype
  | T_array ctype nat

type_synonym param = "ctype \<times> string"

subsection \<open>Decoration, calling convention, prototypes\<close>

text \<open>
  The first token of a prototype: the macro \<^verbatim>\<open>DLLEXP\<close> or nothing. Lines 5 to 9 of the
  header define the macro as \<^verbatim>\<open>__declspec(dllexport)\<close> when \<^verbatim>\<open>COMPILING_DLL\<close> is defined
  and as \<^verbatim>\<open>__declspec(dllimport)\<close> otherwise.
\<close>

datatype decoration = DLLEXP | Undecorated

datatype declspec = Dllexport | Dllimport

fun expand :: "bool \<Rightarrow> decoration \<Rightarrow> declspec option" where
  "expand compiling_dll DLLEXP = Some (if compiling_dll then Dllexport else Dllimport)"
| "expand compiling_dll Undecorated = None"

datatype callconv = Cdecl | Stdcall | Fastcall | Unspecified

datatype decl =
  Decl (decor: decoration) (ret: ctype) (conv: callconv) (fname: string) (params: "param list")

subsection \<open>The lines of the header\<close>

datatype brace = Extern_C_open | Close_brace

datatype item = Ifdef_cplusplus brace | Proto decl

definition mkusb_h :: "item list" where
  "mkusb_h = [
    Ifdef_cplusplus Extern_C_open,
    Proto (Decl DLLEXP T_uint Cdecl ''mk_version'' []),
    Proto (Decl DLLEXP T_bool Cdecl ''mk_Init'' [(T_int, ''isMonitor''), (T_int, ''msec'')]),
    Proto (Decl DLLEXP T_void Cdecl ''mk_Close'' []),
    Proto (Decl DLLEXP T_bool Cdecl ''mk_IsUpdate'' []),
    Proto (Decl DLLEXP T_bool Cdecl ''mk_SpDevScan'' []),
    Proto (Decl DLLEXP T_bool Cdecl ''mk_FindFirst'' [(T_ptr T_char, ''name'')]),
    Proto (Decl DLLEXP T_bool Cdecl ''mk_FindNext'' [(T_ptr T_char, ''name'')]),
    Proto (Decl DLLEXP T_bool Cdecl ''mk_FindClose'' []),
    Proto (Decl DLLEXP T_int Cdecl ''mk_GetDeviceCnt'' []),
    Proto (Decl DLLEXP T_int Cdecl ''mk_GetOptSnByName''
      [(T_ptr T_char, ''name''), (T_ptr T_char, ''sn'')]),
    Proto (Decl DLLEXP T_int Cdecl ''mk_OpenSpDev'' [(T_ptr T_char, ''Name'')]),
    Proto (Decl DLLEXP T_int Cdecl ''mk_OpenSpDev_OptSn'' [(T_ptr T_char, ''sn'')]),
    Proto (Decl DLLEXP T_bool Cdecl ''mk_CloseSpDev'' [(T_int, ''i'')]),
    Proto (Decl DLLEXP T_bool Cdecl ''mk_Msr_Capture''
      [(T_int, ''i''), (T_ushort, ''isAuto''), (T_ushort, ''ExpTime'')]),
    Proto (Decl DLLEXP T_bool Cdecl ''mk_Msr_Capture_multi''
      [(T_ptr T_int, ''list''), (T_ptr T_bool, ''result''), (T_int, ''dev_cnt''),
       (T_ushort, ''isAuto''), (T_ushort, ''ExpTime'')]),
    Proto (Decl DLLEXP T_bool Cdecl ''mk_Msr_Dark'' [(T_int, ''i'')]),
    Proto (Decl DLLEXP T_bool Cdecl ''mk_Msr_GetDarkStus''
      [(T_int, ''i''), (T_ptr T_int, ''stus'')]),
    Proto (Decl DLLEXP T_bool Cdecl ''mk_Msr_Dark_multi''
      [(T_ptr T_int, ''list''), (T_int, ''dev_cnt''), (T_ptr T_bool, ''pErr'')]),
    Proto (Decl DLLEXP T_bool Cdecl ''mk_Msr_SetMaxExpTime''
      [(T_int, ''i''), (T_uint, ''maxtime'')]),
    Proto (Decl DLLEXP T_bool Cdecl ''mk_Msr_SetExpMode'' [(T_int, ''i''), (T_uint, ''mode'')]),
    Proto (Decl DLLEXP T_bool Cdecl ''mk_Msr_AutoDarkCtrl'' [(T_int, ''i''), (T_uint, ''ctl'')]),
    Proto (Decl DLLEXP T_bool Cdecl ''mk_Msr_SetCorrMatrixCH'' [(T_int, ''i''), (T_uint, ''ch'')]),
    Proto (Decl DLLEXP T_bool Cdecl ''mk_Msr_GetCorrMatrixPara''
      [(T_int, ''i''), (T_uint, ''ch''), (T_ptr T_char, ''name''), (T_ptr T_double, ''data'')]),
    Proto (Decl DLLEXP T_bool Cdecl ''mk_Msr_SetCorrMatrixPara''
      [(T_int, ''i''), (T_uint, ''ch''), (T_ptr T_char, ''name''), (T_ptr T_double, ''data'')]),
    Proto (Decl DLLEXP T_bool Cdecl ''mk_Msr_GenerateCorrMatrix''
      [(T_ptr T_double, ''ref''), (T_ptr T_double, ''mes''), (T_int, ''len''),
       (T_ptr T_double, ''corr''), (T_int, ''colorspace'')]),
    Proto (Decl DLLEXP T_bool Cdecl ''mk_GetData''
      [(T_int, ''i''), (T_int, ''type''), (T_ptr T_float, ''data'')]),
    Proto (Decl DLLEXP T_bool Cdecl ''mk_GetSpectrum''
      [(T_int, ''i''), (T_int, ''str''), (T_int, ''stp''), (T_ptr T_float, ''data'')]),
    Proto (Decl DLLEXP T_bool Cdecl ''mk_GetMicroMole''
      [(T_int, ''i''), (T_int, ''str''), (T_int, ''stp''), (T_ptr T_float, ''data'')]),
    Proto (Decl DLLEXP T_bool Cdecl ''mk_GetOptSn'' [(T_int, ''i''), (T_ptr T_char, ''sn'')]),
    Proto (Decl DLLEXP T_int Cdecl ''mk_GetLightStrnegth'' [(T_int, ''i'')]),
    Proto (Decl DLLEXP T_bool Cdecl ''mk_lv_GetOptSn'' [(T_int, ''i''), (T_ptr T_char, ''sn'')]),
    Proto (Decl DLLEXP T_bool Cdecl ''mk_lv_SetOptSn'' [(T_int, ''i''), (T_ptr T_char, ''sn'')]),
    Proto (Decl DLLEXP T_bool Cdecl ''mk_Peri_GetTemp'' [(T_int, ''i''), (T_ptr T_float, ''data'')]),
    Proto (Decl DLLEXP T_bool Cdecl ''mk_Peri_SetLCD'' [(T_int, ''i''), (T_ushort, ''percent'')]),
    Proto (Decl DLLEXP T_bool Cdecl ''mk_Peri_KeyEnable'' [(T_int, ''i'')]),
    Proto (Decl DLLEXP T_bool Cdecl ''mk_Peri_KeyDisable'' [(T_int, ''i'')]),
    Proto (Decl DLLEXP T_bool Cdecl ''mk_Peri_KeyClear'' [(T_int, ''i'')]),
    Proto (Decl DLLEXP T_bool Cdecl ''mk_Peri_KeyGet'' [(T_int, ''i''), (T_ptr T_uint, ''key'')]),
    Proto (Decl DLLEXP T_bool Cdecl ''mk_Info_Get''
      [(T_int, ''i''), (T_int, ''id''), (T_ptr T_char, ''str_info'')]),
    Proto (Decl DLLEXP T_bool Cdecl ''mk_flk_Dark'' [(T_int, ''i'')]),
    Proto (Decl DLLEXP T_bool Cdecl ''mk_flk_SetPara''
      [(T_int, ''i''), (T_uint, ''sample_num''), (T_uint, ''sample_freq''),
       (T_uint, ''fir_num''), (T_uint, ''fir_cutfreq'')]),
    Proto (Decl DLLEXP T_bool Cdecl ''mk_flk_Capture''
      [(T_int, ''i''), (T_ushort, ''isAutoGain''), (T_ushort, ''gain''),
       (T_ushort, ''enable_fir'')]),
    Proto (Decl DLLEXP T_bool Cdecl ''mk_flk_GetData''
      [(T_int, ''i''), (T_int, ''type''), (T_ptr T_float, ''data'')]),
    Proto (Decl DLLEXP T_bool Cdecl ''mk_flk_GetTimeDomainWaveform''
      [(T_int, ''i''), (T_int, ''size''), (T_ptr T_float, ''data'')]),
    Proto (Decl DLLEXP T_bool Cdecl ''mk_flk_GetFreqDomainWaveform''
      [(T_int, ''i''), (T_int, ''size''), (T_ptr T_float, ''freq''), (T_ptr T_float, ''data'')]),
    Proto (Decl DLLEXP T_bool Cdecl ''mk_senr_Msr_Dark'' [(T_int, ''i'')]),
    Proto (Decl DLLEXP T_bool Cdecl ''mk_senr_Msr_Capture''
      [(T_int, ''i''), (T_ushort, ''isAuto''), (T_uint, ''ExpTime'')]),
    Proto (Decl DLLEXP T_bool Cdecl ''mk_sflk_Dark''
      [(T_int, ''i''), (T_uint, ''uexptime''), (T_uint, ''sampletime'')]),
    Proto (Decl DLLEXP T_bool Cdecl ''mk_sflk_SetPara''
      [(T_int, ''i''), (T_uint, ''sample_num''), (T_uint, ''sample_freq''),
       (T_uint, ''fir_num''), (T_uint, ''fir_cutfreq'')]),
    Proto (Decl DLLEXP T_bool Cdecl ''mk_sflk_Capture''
      [(T_int, ''i''), (T_uint, ''uexptime''), (T_ushort, ''enable_fir'')]),
    Proto (Decl DLLEXP T_bool Cdecl ''mk_sflk_CaptureRaw''
      [(T_int, ''i''), (T_uint, ''uexptime''), (T_ptr T_void, ''ptr'')]),
    Proto (Decl DLLEXP T_bool Cdecl ''mk_sflk_GetData''
      [(T_int, ''i''), (T_int, ''type''), (T_ptr T_float, ''data'')]),
    Proto (Decl DLLEXP T_bool Cdecl ''mk_senr_GetPeakSpRaw''
      [(T_int, ''i''), (T_uint, ''exptime''), (T_ptr T_uint, ''data'')]),
    Ifdef_cplusplus Close_brace
  ]"

subsection \<open>Reading the header\<close>

text \<open>The prototypes of a list of lines, in order.\<close>

fun protos :: "item list \<Rightarrow> decl list" where
  "protos [] = []"
| "protos (Proto d # xs) = d # protos xs"
| "protos (Ifdef_cplusplus b # xs) = protos xs"

definition declarations :: "decl list" where
  "declarations = protos mkusb_h"

text \<open>
  Language linkage. A C compiler skips the lines under \<^verbatim>\<open>#ifdef __cplusplus\<close> and gives
  every function C linkage. A C++ compiler sees the braces: a prototype inside an
  \<^verbatim>\<open>extern "C"\<close> block has C linkage, one outside has C++ linkage. \<open>scan cxx inside xs\<close>
  walks the lines, \<open>inside\<close> telling whether an \<^verbatim>\<open>extern "C"\<close> block is open.
\<close>

datatype linkage = C_linkage | Cxx_linkage

fun scan :: "bool \<Rightarrow> bool \<Rightarrow> item list \<Rightarrow> (decl \<times> linkage) list" where
  "scan cxx inside [] = []"
| "scan cxx inside (Ifdef_cplusplus Extern_C_open # xs) =
     scan cxx (if cxx then True else inside) xs"
| "scan cxx inside (Ifdef_cplusplus Close_brace # xs) =
     scan cxx (if cxx then False else inside) xs"
| "scan cxx inside (Proto d # xs) =
     (d, if cxx \<and> \<not> inside then Cxx_linkage else C_linkage) # scan cxx inside xs"

text \<open>Looking a prototype up by the name a consumer binds.\<close>

definition find_decl :: "string \<Rightarrow> decl option" where
  "find_decl n = find (\<lambda>d. fname d = n) declarations"

definition ret_of :: "string \<Rightarrow> ctype option" where
  "ret_of n = map_option ret (find_decl n)"

definition params_of :: "string \<Rightarrow> param list option" where
  "params_of n = map_option params (find_decl n)"

text \<open>The type of the parameter \<open>p\<close> of the function \<open>n\<close>.\<close>

definition param_type :: "string \<Rightarrow> string \<Rightarrow> ctype option" where
  "param_type n p =
     (case find_decl n of
        None \<Rightarrow> None
      | Some d \<Rightarrow> map_option fst (find (\<lambda>q. snd q = p) (params d)))"

subsection \<open>Shapes of prototypes\<close>

text \<open>
  A prototype addresses one device when its first parameter is \<^verbatim>\<open>int i\<close>, the index the
  header uses for an opened device throughout (from \<^verbatim>\<open>mk_CloseSpDev(int i)\<close> on).
\<close>

definition takes_device_index :: "decl \<Rightarrow> bool" where
  "takes_device_index d = (case params d of [] \<Rightarrow> False | p # ps \<Rightarrow> p = (T_int, ''i''))"

text \<open>
  A parameter is passed by value when its type is an arithmetic type. It is a raw pointer
  when its type is a pointer to an arithmetic type or to \<^verbatim>\<open>void\<close>: the type then carries no
  element count, which an array declarator would.
\<close>

fun is_scalar :: "ctype \<Rightarrow> bool" where
  "is_scalar T_bool = True"
| "is_scalar T_char = True"
| "is_scalar T_ushort = True"
| "is_scalar T_int = True"
| "is_scalar T_uint = True"
| "is_scalar T_float = True"
| "is_scalar T_double = True"
| "is_scalar T_void = False"
| "is_scalar (T_ptr t) = False"
| "is_scalar (T_array t n) = False"

fun is_raw_pointer :: "ctype \<Rightarrow> bool" where
  "is_raw_pointer (T_ptr t) = (is_scalar t \<or> t = T_void)"
| "is_raw_pointer T_void = False"
| "is_raw_pointer T_bool = False"
| "is_raw_pointer T_char = False"
| "is_raw_pointer T_ushort = False"
| "is_raw_pointer T_int = False"
| "is_raw_pointer T_uint = False"
| "is_raw_pointer T_float = False"
| "is_raw_pointer T_double = False"
| "is_raw_pointer (T_array t n) = False"

definition pointer_params :: "decl \<Rightarrow> param list" where
  "pointer_params d = filter (\<lambda>p. is_raw_pointer (fst p)) (params d)"

text \<open>Substrings of a function name.\<close>

fun starts_with :: "string \<Rightarrow> string \<Rightarrow> bool" where
  "starts_with [] s = True"
| "starts_with (p # ps) [] = False"
| "starts_with (p # ps) (c # cs) = (p = c \<and> starts_with ps cs)"

fun has_substring :: "string \<Rightarrow> string \<Rightarrow> bool" where
  "has_substring w [] = starts_with w []"
| "has_substring w (c # cs) = (starts_with w (c # cs) \<or> has_substring w cs)"

text \<open>
  A name speaks of a version, a format or a protocol when it holds one of these stems.
  (\<^verbatim>\<open>Waveform\<close> holds \<^verbatim>\<open>form\<close> but not \<^verbatim>\<open>format\<close>.)
\<close>

definition versioning_stems :: "string list" where
  "versioning_stems =
     [''ver'', ''Ver'', ''VER'', ''format'', ''Format'', ''FORMAT'', ''fmt'', ''Fmt'', ''FMT'',
      ''proto'', ''Proto'', ''PROTO'']"

definition names_versioning :: "decl \<Rightarrow> bool" where
  "names_versioning d = list_ex (\<lambda>w. has_substring w (fname d)) versioning_stems"

text \<open>The per-device queries whose name starts with \<^verbatim>\<open>mk_Get\<close>.\<close>

definition per_device_get :: "decl \<Rightarrow> bool" where
  "per_device_get d = (starts_with ''mk_Get'' (fname d) \<and> takes_device_index d)"

subsection \<open>Widths of the unsigned integer types\<close>

text \<open>
  Modelled from the spec: the header does not fix the widths of \<^verbatim>\<open>unsigned short\<close> and
  \<^verbatim>\<open>unsigned int\<close>; they come from the compiler the header is written for (it includes
  \<^verbatim>\<open>windows.h\<close> and uses \<^verbatim>\<open>__declspec\<close> and \<^verbatim>\<open>__cdecl\<close>), where \<^verbatim>\<open>unsigned short\<close> has 16 bits
  and \<^verbatim>\<open>unsigned int\<close> has 32 bits.
\<close>

fun bit_width :: "ctype \<Rightarrow> nat option" where
  "bit_width T_ushort = Some 16"
| "bit_width T_uint = Some 32"
| "bit_width T_void = None"
| "bit_width T_bool = None"
| "bit_width T_char = None"
| "bit_width T_int = None"
| "bit_width T_float = None"
| "bit_width T_double = None"
| "bit_width (T_ptr t) = None"
| "bit_width (T_array t n) = None"

definition max_value :: "ctype \<Rightarrow> nat option" where
  "max_value t = map_option (\<lambda>w. 2 ^ w - 1) (bit_width t)"

definition representable :: "ctype \<Rightarrow> nat \<Rightarrow> bool" where
  "representable t v = (case bit_width t of None \<Rightarrow> False | Some w \<Rightarrow> v < 2 ^ w)"

text \<open>
  An argument of unsigned type is converted to the parameter's type by reduction
  modulo \<open>2 ^ w\<close>.
\<close>

definition pass_unsigned :: "ctype \<Rightarrow> nat \<Rightarrow> nat option" where
  "pass_unsigned t v = map_option (\<lambda>w. v mod 2 ^ w) (bit_width t)"

section \<open>Properties of the declared interface\<close>

subsection \<open>The list as a whole\<close>

lemma declarations_length: "length declarations = 53"
  by (simp add: declarations_def mkusb_h_def)

lemma declarations_distinct_names: "distinct (map fname declarations)"
  by (simp add: declarations_def mkusb_h_def)

text \<open>
  Compiled as C or as C++, the header yields the same prototypes, each with C linkage:
  the opening brace comes before the first prototype and the closing brace after the last.
\<close>

lemma scan_mkusb_h: "scan cxx False mkusb_h = map (\<lambda>d. (d, C_linkage)) declarations"
  by (cases cxx) (simp_all add: declarations_def mkusb_h_def)

subsection \<open>Return types\<close>

text \<open>
  Claim C1, as the code has it: every function the header declares, \<^verbatim>\<open>mk_Close\<close> apart, returns
  \<^verbatim>\<open>bool\<close>, \<^verbatim>\<open>int\<close> or \<^verbatim>\<open>unsigned int\<close>; \<^verbatim>\<open>mk_Close\<close> returns \<^verbatim>\<open>void\<close>.
\<close>

theorem C1_return_types:
  "(\<forall>d \<in> set declarations. fname d \<noteq> ''mk_Close'' \<longrightarrow> ret d \<in> {T_bool, T_int, T_uint})
   \<and> ret_of ''mk_Close'' = Some T_void"
  by (simp add: ret_of_def find_decl_def declarations_def mkusb_h_def)

theorem C1_return_types_witness:
  "Decl DLLEXP T_uint Cdecl ''mk_version'' [] \<in> set declarations
   \<and> fname (Decl DLLEXP T_uint Cdecl ''mk_version'' []) \<noteq> ''mk_Close''
   \<and> ret (Decl DLLEXP T_uint Cdecl ''mk_version'' []) \<in> {T_bool, T_int, T_uint}"
proof -
  have h: "Decl DLLEXP T_uint Cdecl ''mk_version'' [] \<in> set declarations"
    by (simp add: declarations_def mkusb_h_def)
  have n: "fname (Decl DLLEXP T_uint Cdecl ''mk_version'' []) \<noteq> ''mk_Close''"
    by simp
  from C1_return_types h n
  have "ret (Decl DLLEXP T_uint Cdecl ''mk_version'' []) \<in> {T_bool, T_int, T_uint}"
    by blast
  with h n show ?thesis by blast
qed

text \<open>
  Claim C1 as stated (every declared function returns \<^verbatim>\<open>bool\<close>, \<^verbatim>\<open>int\<close> or \<^verbatim>\<open>unsigned int\<close>)
  fails at line 21 of the header: \<^verbatim>\<open>DLLEXP void __cdecl mk_Close();\<close> is declared and returns
  \<^verbatim>\<open>void\<close>.
\<close>

theorem C1_counterexample:
  "Decl DLLEXP T_void Cdecl ''mk_Close'' [] \<in> set declarations
   \<and> ret (Decl DLLEXP T_void Cdecl ''mk_Close'' []) \<notin> {T_bool, T_int, T_uint}"
  by (simp add: declarations_def mkusb_h_def)

subsection \<open>Device lifecycle\<close>

text \<open>
  Claim C2: the header declares \<^verbatim>\<open>mk_Init\<close> taking \<^verbatim>\<open>isMonitor\<close> and \<^verbatim>\<open>msec\<close>, \<^verbatim>\<open>mk_Close\<close> taking
  nothing, the enumeration calls \<^verbatim>\<open>mk_SpDevScan\<close>, \<^verbatim>\<open>mk_FindFirst\<close>, \<^verbatim>\<open>mk_FindNext\<close> (both
  with a name string) and \<^verbatim>\<open>mk_FindClose\<close>, \<^verbatim>\<open>mk_OpenSpDev\<close> (by name) and
  \<^verbatim>\<open>mk_OpenSpDev_OptSn\<close> (by serial number) each returning an \<^verbatim>\<open>int\<close> handle,
  \<^verbatim>\<open>mk_CloseSpDev\<close> taking an index, and \<^verbatim>\<open>mk_GetDeviceCnt\<close> returning \<^verbatim>\<open>int\<close>.
\<close>

theorem C2_lifecycle:
  "find_decl ''mk_Init'' =
     Some (Decl DLLEXP T_bool Cdecl ''mk_Init'' [(T_int, ''isMonitor''), (T_int, ''msec'')])
   \<and> find_decl ''mk_Close'' = Some (Decl DLLEXP T_void Cdecl ''mk_Close'' [])
   \<and> find_decl ''mk_SpDevScan'' = Some (Decl DLLEXP T_bool Cdecl ''mk_SpDevScan'' [])
   \<and> find_decl ''mk_FindFirst'' =
     Some (Decl DLLEXP T_bool Cdecl ''mk_FindFirst'' [(T_ptr T_char, ''name'')])
   \<and> find_decl ''mk_FindNext'' =
     Some (Decl DLLEXP T_bool Cdecl ''mk_FindNext'' [(T_ptr T_char, ''name'')])
   \<and> find_decl ''mk_FindClose'' = Some (Decl DLLEXP T_bool Cdecl ''mk_FindClose'' [])
   \<and> find_decl ''mk_OpenSpDev'' =
     Some (Decl DLLEXP T_int Cdecl ''mk_OpenSpDev'' [(T_ptr T_char, ''Name'')])
   \<and> find_decl ''mk_OpenSpDev_OptSn'' =
     Some (Decl DLLEXP T_int Cdecl ''mk_OpenSpDev_OptSn'' [(T_ptr T_char, ''sn'')])
   \<and> find_decl ''mk_CloseSpDev'' =
     Some (Decl DLLEXP T_bool Cdecl ''mk_CloseSpDev'' [(T_int, ''i'')])
   \<and> find_decl ''mk_GetDeviceCnt'' = Some (Decl DLLEXP T_int Cdecl ''mk_GetDeviceCnt'' [])"
  by (simp add: find_decl_def declarations_def mkusb_h_def)

subsection \<open>Linkage\<close>

text \<open>
  Claim C3: every declared function has the calling convention \<^verbatim>\<open>__cdecl\<close> and the
  decoration \<^verbatim>\<open>DLLEXP\<close>, which expands to \<^verbatim>\<open>dllexport\<close> or \<^verbatim>\<open>dllimport\<close>; compiled as C++
  (and as C) each of them lies inside the \<^verbatim>\<open>extern "C"\<close> block and has C linkage.
\<close>

theorem C3_linkage:
  "(\<forall>d \<in> set declarations.
      conv d = Cdecl \<and> decor d = DLLEXP
      \<and> expand compiling_dll (decor d) = Some (if compiling_dll then Dllexport else Dllimport))
   \<and> map fst (scan cxx False mkusb_h) = declarations
   \<and> (\<forall>p \<in> set (scan cxx False mkusb_h). snd p = C_linkage)"
proof -
  have a: "\<forall>d \<in> set declarations. conv d = Cdecl \<and> decor d = DLLEXP"
    by (simp add: declarations_def mkusb_h_def)
  have b: "map fst (scan cxx False mkusb_h) = declarations"
    by (simp add: scan_mkusb_h comp_def)
  have c: "\<forall>p \<in> set (scan cxx False mkusb_h). snd p = C_linkage"
    by (auto simp add: scan_mkusb_h)
  from a b c show ?thesis by simp
qed

theorem C3_linkage_witness:
  "Decl DLLEXP T_uint Cdecl ''mk_version'' [] \<in> set declarations
   \<and> conv (Decl DLLEXP T_uint Cdecl ''mk_version'' []) = Cdecl
   \<and> decor (Decl DLLEXP T_uint Cdecl ''mk_version'' []) = DLLEXP
   \<and> expand False (decor (Decl DLLEXP T_uint Cdecl ''mk_version'' [])) = Some Dllimport
   \<and> hd (scan True False mkusb_h) \<in> set (scan True False mkusb_h)
   \<and> snd (hd (scan True False mkusb_h)) = C_linkage"
proof -
  have h: "Decl DLLEXP T_uint Cdecl ''mk_version'' [] \<in> set declarations"
    by (simp add: declarations_def mkusb_h_def)
  have m: "hd (scan True False mkusb_h) \<in> set (scan True False mkusb_h)"
    by (simp add: mkusb_h_def)
  note t = C3_linkage [of False True]
  from t h have a: "conv (Decl DLLEXP T_uint Cdecl ''mk_version'' []) = Cdecl
      \<and> decor (Decl DLLEXP T_uint Cdecl ''mk_version'' []) = DLLEXP
      \<and> expand False (decor (Decl DLLEXP T_uint Cdecl ''mk_version'' [])) = Some Dllimport"
    by simp
  from t m have b: "snd (hd (scan True False mkusb_h)) = C_linkage"
    by blast
  from h m a b show ?thesis by blast
qed

subsection \<open>Device indices\<close>

text \<open>
  Claim C4: the declared functions whose first parameter is not the device index
  \<^verbatim>\<open>int i\<close> are the twelve driver-wide calls, the two batch calls, whose first parameter is
  the list \<^verbatim>\<open>int *list\<close>, and \<^verbatim>\<open>mk_Msr_GenerateCorrMatrix\<close>, no parameter of which names a
  device; the other 38 take \<^verbatim>\<open>int i\<close> first. (The first parameter of \<^verbatim>\<open>mk_Init\<close> has the
  type \<^verbatim>\<open>int\<close> too, but it is the flag \<^verbatim>\<open>isMonitor\<close>.)
\<close>

theorem C4_device_index:
  "map fname (filter (\<lambda>d. \<not> takes_device_index d) declarations) =
     [''mk_version'', ''mk_Init'', ''mk_Close'', ''mk_IsUpdate'', ''mk_SpDevScan'',
      ''mk_FindFirst'', ''mk_FindNext'', ''mk_FindClose'', ''mk_GetDeviceCnt'',
      ''mk_GetOptSnByName'', ''mk_OpenSpDev'', ''mk_OpenSpDev_OptSn'',
      ''mk_Msr_Capture_multi'', ''mk_Msr_Dark_multi'',
      ''mk_Msr_GenerateCorrMatrix'']
   \<and> length (filter takes_device_index declarations) = 38
   \<and> params_of ''mk_Init'' = Some [(T_int, ''isMonitor''), (T_int, ''msec'')]
   \<and> param_type ''mk_Msr_Capture_multi'' ''list'' = Some (T_ptr T_int)
   \<and> param_type ''mk_Msr_Dark_multi'' ''list'' = Some (T_ptr T_int)
   \<and> params_of ''mk_Msr_GenerateCorrMatrix'' =
       Some [(T_ptr T_double, ''ref''), (T_ptr T_double, ''mes''), (T_int, ''len''),
             (T_ptr T_double, ''corr''), (T_int, ''colorspace'')]"
proof -
  have a: "map fname (filter (\<lambda>d. \<not> takes_device_index d) declarations) =
     [''mk_version'', ''mk_Init'', ''mk_Close'', ''mk_IsUpdate'', ''mk_SpDevScan'',
      ''mk_FindFirst'', ''mk_FindNext'', ''mk_FindClose'', ''mk_GetDeviceCnt'',
      ''mk_GetOptSnByName'', ''mk_OpenSpDev'', ''mk_OpenSpDev_OptSn'',
      ''mk_Msr_Capture_multi'', ''mk_Msr_Dark_multi'',
      ''mk_Msr_GenerateCorrMatrix'']"
    by (simp add: takes_device_index_def declarations_def mkusb_h_def)
  have b: "length (filter takes_device_index declarations) = 38"
    by (simp add: takes_device_index_def declarations_def mkusb_h_def)
  have c: "param_type ''mk_Msr_Capture_multi'' ''list'' = Some (T_ptr T_int)"
    by (simp add: param_type_def find_decl_def declarations_def mkusb_h_def)
  have d: "param_type ''mk_Msr_Dark_multi'' ''list'' = Some (T_ptr T_int)"
    by (simp add: param_type_def find_decl_def declarations_def mkusb_h_def)
  have e: "params_of ''mk_Msr_GenerateCorrMatrix'' =
       Some [(T_ptr T_double, ''ref''), (T_ptr T_double, ''mes''), (T_int, ''len''),
             (T_ptr T_double, ''corr''), (T_int, ''colorspace'')]"
    by (simp add: params_of_def find_decl_def declarations_def mkusb_h_def)
  have f: "params_of ''mk_Init'' = Some [(T_int, ''isMonitor''), (T_int, ''msec'')]"
    by (simp add: params_of_def find_decl_def declarations_def mkusb_h_def)
  from a b f c d e show ?thesis by (intro conjI)
qed

subsection \<open>Buffers and versioning\<close>

text \<open>
  Claim C5: every parameter of every declared function is an arithmetic value or a raw
  pointer (to an arithmetic type or to \<^verbatim>\<open>void\<close>), so no declaration carries the size of a
  buffer; the only declared function whose name speaks of a version, a format or a
  protocol is \<^verbatim>\<open>mk_version\<close>, which takes no argument and returns \<^verbatim>\<open>unsigned int\<close>.
\<close>

theorem C5_buffers_and_version:
  "(\<forall>d \<in> set declarations. \<forall>p \<in> set (params d). is_scalar (fst p) \<or> is_raw_pointer (fst p))
   \<and> map fname (filter names_versioning declarations) = [''mk_version'']
   \<and> find_decl ''mk_version'' = Some (Decl DLLEXP T_uint Cdecl ''mk_version'' [])"
proof -
  have a: "\<forall>d \<in> set declarations. \<forall>p \<in> set (params d). is_scalar (fst p) \<or> is_raw_pointer (fst p)"
    by (simp add: declarations_def mkusb_h_def)
  have b: "map fname (filter names_versioning declarations) = [''mk_version'']"
    by (simp add: names_versioning_def versioning_stems_def declarations_def mkusb_h_def)
  have c: "find_decl ''mk_version'' = Some (Decl DLLEXP T_uint Cdecl ''mk_version'' [])"
    by (simp add: find_decl_def declarations_def mkusb_h_def)
  from a b c show ?thesis by (intro conjI)
qed

theorem C5_buffers_and_version_witness:
  "Decl DLLEXP T_bool Cdecl ''mk_sflk_CaptureRaw''
      [(T_int, ''i''), (T_uint, ''uexptime''), (T_ptr T_void, ''ptr'')] \<in> set declarations
   \<and> (T_ptr T_void, ''ptr'') \<in> set (params (Decl DLLEXP T_bool Cdecl ''mk_sflk_CaptureRaw''
      [(T_int, ''i''), (T_uint, ''uexptime''), (T_ptr T_void, ''ptr'')]))
   \<and> (is_scalar (fst (T_ptr T_void, ''ptr'')) \<or> is_raw_pointer (fst (T_ptr T_void, ''ptr'')))"
proof -
  have h: "Decl DLLEXP T_bool Cdecl ''mk_sflk_CaptureRaw''
      [(T_int, ''i''), (T_uint, ''uexptime''), (T_ptr T_void, ''ptr'')] \<in> set declarations"
    by (simp add: declarations_def mkusb_h_def)
  have m: "(T_ptr T_void, ''ptr'') \<in> set (params (Decl DLLEXP T_bool Cdecl ''mk_sflk_CaptureRaw''
      [(T_int, ''i''), (T_uint, ''uexptime''), (T_ptr T_void, ''ptr'')]))"
    by simp
  from C5_buffers_and_version h m
  have "is_scalar (fst (T_ptr T_void, ''ptr'')) \<or> is_raw_pointer (fst (T_ptr T_void, ''ptr''))"
    by blast
  with h m show ?thesis by blast
qed

subsection \<open>Calibration\<close>

text \<open>
  Claim C6: \<^verbatim>\<open>mk_Msr_GetCorrMatrixPara\<close> and \<^verbatim>\<open>mk_Msr_SetCorrMatrixPara\<close> each take a device
  index, an \<^verbatim>\<open>unsigned int\<close> channel, a name string and a \<^verbatim>\<open>double\<close> array;
  \<^verbatim>\<open>mk_Msr_GenerateCorrMatrix\<close> takes the reference and the measured \<^verbatim>\<open>double\<close> arrays, their
  common \<^verbatim>\<open>int\<close> length, the \<^verbatim>\<open>double\<close> output buffer and an \<^verbatim>\<open>int\<close> colour-space selector,
  and returns \<^verbatim>\<open>bool\<close>.
\<close>

theorem C6_calibration:
  "find_decl ''mk_Msr_GetCorrMatrixPara'' =
     Some (Decl DLLEXP T_bool Cdecl ''mk_Msr_GetCorrMatrixPara''
       [(T_int, ''i''), (T_uint, ''ch''), (T_ptr T_char, ''name''), (T_ptr T_double, ''data'')])
   \<and> find_decl ''mk_Msr_SetCorrMatrixPara'' =
     Some (Decl DLLEXP T_bool Cdecl ''mk_Msr_SetCorrMatrixPara''
       [(T_int, ''i''), (T_uint, ''ch''), (T_ptr T_char, ''name''), (T_ptr T_double, ''data'')])
   \<and> find_decl ''mk_Msr_GenerateCorrMatrix'' =
     Some (Decl DLLEXP T_bool Cdecl ''mk_Msr_GenerateCorrMatrix''
       [(T_ptr T_double, ''ref''), (T_ptr T_double, ''mes''), (T_int, ''len''),
        (T_ptr T_double, ''corr''), (T_int, ''colorspace'')])"
  by (simp add: find_decl_def declarations_def mkusb_h_def)

subsection \<open>Data retrieval\<close>

text \<open>
  Claim C7: \<^verbatim>\<open>mk_GetData\<close> takes a device index, an \<^verbatim>\<open>int\<close> type selector and a \<^verbatim>\<open>float\<close>
  output buffer; \<^verbatim>\<open>mk_GetSpectrum\<close> and \<^verbatim>\<open>mk_GetMicroMole\<close> take an \<^verbatim>\<open>int\<close> start and stop and
  a \<^verbatim>\<open>float\<close> buffer; the light-strength query returns an \<^verbatim>\<open>int\<close>; \<^verbatim>\<open>mk_senr_GetPeakSpRaw\<close>
  takes an exposure time and an \<^verbatim>\<open>unsigned int\<close> output buffer.
\<close>

theorem C7_data_retrieval:
  "find_decl ''mk_GetData'' =
     Some (Decl DLLEXP T_bool Cdecl ''mk_GetData''
       [(T_int, ''i''), (T_int, ''type''), (T_ptr T_float, ''data'')])
   \<and> find_decl ''mk_GetSpectrum'' =
     Some (Decl DLLEXP T_bool Cdecl ''mk_GetSpectrum''
       [(T_int, ''i''), (T_int, ''str''), (T_int, ''stp''), (T_ptr T_float, ''data'')])
   \<and> find_decl ''mk_GetMicroMole'' =
     Some (Decl DLLEXP T_bool Cdecl ''mk_GetMicroMole''
       [(T_int, ''i''), (T_int, ''str''), (T_int, ''stp''), (T_ptr T_float, ''data'')])
   \<and> find_decl ''mk_GetLightStrnegth'' =
     Some (Decl DLLEXP T_int Cdecl ''mk_GetLightStrnegth'' [(T_int, ''i'')])
   \<and> find_decl ''mk_senr_GetPeakSpRaw'' =
     Some (Decl DLLEXP T_bool Cdecl ''mk_senr_GetPeakSpRaw''
       [(T_int, ''i''), (T_uint, ''exptime''), (T_ptr T_uint, ''data'')])"
  by (simp add: find_decl_def declarations_def mkusb_h_def)

subsection \<open>The light-strength query\<close>

text \<open>
  Claim C8: the header declares \<^verbatim>\<open>mk_GetLightStrnegth\<close> and no \<^verbatim>\<open>mk_GetLightStrength\<close>. Of
  the per-device queries named \<^verbatim>\<open>mk_Get...\<close> it alone returns \<^verbatim>\<open>int\<close> and has no pointer
  parameter; each of the others returns \<^verbatim>\<open>bool\<close> and has one pointer parameter for the
  result. It is the only per-device function at all that does not return \<^verbatim>\<open>bool\<close>.
\<close>

theorem C8_light_strength:
  "find_decl ''mk_GetLightStrength'' = None
   \<and> ret_of ''mk_GetLightStrnegth'' = Some T_int
   \<and> params_of ''mk_GetLightStrnegth'' = Some [(T_int, ''i'')]
   \<and> map (\<lambda>d. (fname d, ret d, pointer_params d)) (filter per_device_get declarations) =
       [(''mk_GetData'', T_bool, [(T_ptr T_float, ''data'')]),
        (''mk_GetSpectrum'', T_bool, [(T_ptr T_float, ''data'')]),
        (''mk_GetMicroMole'', T_bool, [(T_ptr T_float, ''data'')]),
        (''mk_GetOptSn'', T_bool, [(T_ptr T_char, ''sn'')]),
        (''mk_GetLightStrnegth'', T_int, [])]
   \<and> map fname (filter (\<lambda>d. takes_device_index d \<and> ret d \<noteq> T_bool) declarations) =
       [''mk_GetLightStrnegth'']"
proof -
  have a: "find_decl ''mk_GetLightStrength'' = None"
    by (simp add: find_decl_def declarations_def mkusb_h_def)
  have b: "ret_of ''mk_GetLightStrnegth'' = Some T_int"
    by (simp add: ret_of_def find_decl_def declarations_def mkusb_h_def)
  have c: "params_of ''mk_GetLightStrnegth'' = Some [(T_int, ''i'')]"
    by (simp add: params_of_def find_decl_def declarations_def mkusb_h_def)
  have d: "map (\<lambda>d. (fname d, ret d, pointer_params d)) (filter per_device_get declarations) =
       [(''mk_GetData'', T_bool, [(T_ptr T_float, ''data'')]),
        (''mk_GetSpectrum'', T_bool, [(T_ptr T_float, ''data'')]),
        (''mk_GetMicroMole'', T_bool, [(T_ptr T_float, ''data'')]),
        (''mk_GetOptSn'', T_bool, [(T_ptr T_char, ''sn'')]),
        (''mk_GetLightStrnegth'', T_int, [])]"
    by (simp add: per_device_get_def takes_device_index_def pointer_params_def
        declarations_def mkusb_h_def)
  have e: "map fname (filter (\<lambda>d. takes_device_index d \<and> ret d \<noteq> T_bool) declarations) =
       [''mk_GetLightStrnegth'']"
    by (simp add: takes_device_index_def declarations_def mkusb_h_def)
  from a b c d e show ?thesis by (intro conjI)
qed

subsection \<open>Exposure times\<close>

text \<open>
  Claim C10: \<^verbatim>\<open>mk_Msr_Capture\<close> takes its exposure time as \<^verbatim>\<open>unsigned short\<close> (16 bits, at
  most 65535); \<^verbatim>\<open>mk_senr_Msr_Capture\<close>, \<^verbatim>\<open>mk_sflk_Dark\<close>, \<^verbatim>\<open>mk_sflk_Capture\<close>,
  \<^verbatim>\<open>mk_sflk_CaptureRaw\<close> and \<^verbatim>\<open>mk_senr_GetPeakSpRaw\<close> take theirs as \<^verbatim>\<open>unsigned int\<close>
  (32 bits). The exposure time 65536 fits the second group and not the first, where it
  would arrive as 0.
\<close>

theorem C10_exposure_width:
  "param_type ''mk_Msr_Capture'' ''ExpTime'' = Some T_ushort
   \<and> param_type ''mk_senr_Msr_Capture'' ''ExpTime'' = Some T_uint
   \<and> param_type ''mk_sflk_Dark'' ''uexptime'' = Some T_uint
   \<and> param_type ''mk_sflk_Capture'' ''uexptime'' = Some T_uint
   \<and> param_type ''mk_sflk_CaptureRaw'' ''uexptime'' = Some T_uint
   \<and> param_type ''mk_senr_GetPeakSpRaw'' ''exptime'' = Some T_uint
   \<and> bit_width T_ushort = Some 16 \<and> max_value T_ushort = Some 65535
   \<and> bit_width T_uint = Some 32 \<and> max_value T_uint = Some 4294967295
   \<and> representable T_uint 65536 \<and> \<not> representable T_ushort 65536
   \<and> pass_unsigned T_uint 65536 = Some 65536 \<and> pass_unsigned T_ushort 65536 = Some 0"
proof -
  have a: "param_type ''mk_Msr_Capture'' ''ExpTime'' = Some T_ushort"
    "param_type ''mk_senr_Msr_Capture'' ''ExpTime'' = Some T_uint"
    "param_type ''mk_sflk_Dark'' ''uexptime'' = Some T_uint"
    "param_type ''mk_sflk_Capture'' ''uexptime'' = Some T_uint"
    "param_type ''mk_sflk_CaptureRaw'' ''uexptime'' = Some T_uint"
    "param_type ''mk_senr_GetPeakSpRaw'' ''exptime'' = Some T_uint"
    by (simp_all add: param_type_def find_decl_def declarations_def mkusb_h_def)
  have b: "bit_width T_ushort = Some 16" "max_value T_ushort = Some 65535"
    "bit_width T_uint = Some 32" "max_value T_uint = Some 4294967295"
    by (simp_all add: max_value_def)
  have c: "representable T_uint 65536" "\<not> representable T_ushort 65536"
    "pass_unsigned T_uint 65536 = Some 65536" "pass_unsigned T_ushort 65536 = Some 0"
    by (simp_all add: representable_def pass_unsigned_def)
  from a b c show ?thesis by (intro conjI)
qed

end
